theory Spec2Isabelle
  imports Main "HOL-Library.Sublist"
begin

section \<open>Python values, exceptions and the network\<close>

text \<open>
  A decoded JSON body is a Python value: \<open>None\<close>, a bool, a number, a \<open>str\<close>, a
  \<open>list\<close> or a \<open>dict\<close>. The program never inspects a number, so the type \<open>'n\<close> of
  numbers (Python's \<open>int\<close> and \<open>float\<close>) is left open. \<open>JNull\<close> is Python's
  \<open>None\<close>. A \<open>dict\<close> is an association list read with \<open>map_of\<close>.
\<close>

datatype 'n json =
    JNull
  | JBool bool
  | JNum 'n
  | JStr string
  | JArr "'n json list"
  | JObj "(string \<times> 'n json) list"

text \<open>
  The exceptions that can leave a method. \<open>YandexException\<close> carries its single
  argument, a Python value: a message is a \<open>str\<close>. The others are not raised by the
  source's own \<open>raise\<close> statements but by the operations it applies:
  \<open>response.json()\<close> on a body that is not JSON, \<open>.get\<close> on a value that is not a
  \<open>dict\<close>, \<open>in\<close> on a value that is not a container, and any exception of
  \<open>session.get\<close> that is not a \<open>ConnectionError\<close>.
\<close>

datatype 'n error =
    YandexException "'n json"
  | JSONDecodeError
  | AttributeError
  | TypeError
  | OtherException string

fun is_YandexException :: "'n error \<Rightarrow> bool" where
  "is_YandexException (YandexException _) = True"
| "is_YandexException _ = False"

text \<open>
  What \<open>session.get\<close> does: it raises \<open>requests.exceptions.ConnectionError\<close>, raises
  something else, or returns a response with a status code and a body; the body is
  \<open>None\<close> when \<open>response.json()\<close> cannot decode it.
\<close>

datatype 'n outcome =
    ConnectionError
  | Raises string
  | Response int "'n json option"

record YandexTranslate =
  ident :: nat
  api_key :: string

record request =
  session :: nat
  url :: string
  params :: "(string \<times> string) list"

text \<open>
  The process: every call of \<open>session.get\<close> so far, oldest first, with the instance
  whose session made it; the one entry of the \<open>lru_cache(maxsize=1)\<close> that decorates
  \<open>supported_languages\<close>, a pair of the instance it was computed for and the value (the
  cache belongs to the function, so all instances share it); and the identity the next
  constructed instance gets.
\<close>

record 'n process =
  sent :: "request list"
  cache :: "(nat \<times> 'n json) option"
  next_ident :: nat

text \<open>The remote service answers a request knowing all the requests before it.\<close>

type_synonym 'n network = "request list \<Rightarrow> request \<Rightarrow> 'n outcome"

type_synonym ('n, 'a) result = "('n error + 'a) \<times> 'n process"

section \<open>The class \<open>YandexTranslate\<close>\<close>

definition URL :: string where
  "URL = ''https://translate.yandex.net/api/v1.5/tr.json/''"

definition init :: "string \<Rightarrow> 'n process \<Rightarrow> YandexTranslate \<times> 'n process" where
  "init key w =
     (\<lparr>ident = next_ident w, api_key = key\<rparr>, w\<lparr>next_ident := Suc (next_ident w)\<rparr>)"

definition get_api_response ::
  "'n network \<Rightarrow> YandexTranslate \<Rightarrow> string \<Rightarrow> (string \<times> string) list \<Rightarrow> 'n process
     \<Rightarrow> ('n, 'n json) result" where
  "get_api_response net self endpoint payload w =
     (let req = \<lparr>session = ident self, url = URL @ endpoint, params = payload\<rparr>;
          w' = w\<lparr>sent := sent w @ [req]\<rparr>
      in case net (sent w) req of
           ConnectionError \<Rightarrow> (Inl (YandexException (JStr ''API unavailable'')), w')
         | Raises e \<Rightarrow> (Inl (OtherException e), w')
         | Response status_code body \<Rightarrow>
             if status_code \<noteq> 200 then
               (case body of
                  None \<Rightarrow> (Inl JSONDecodeError, w')
                | Some j \<Rightarrow> (Inl (YandexException j), w'))
             else
               (case body of
                  None \<Rightarrow> (Inl JSONDecodeError, w')
                | Some j \<Rightarrow> (Inr j, w')))"

text \<open>\<open>d.get(k)\<close>: only a \<open>dict\<close> has the method; a missing key gives \<open>None\<close>.\<close>

fun py_get :: "'n json \<Rightarrow> string \<Rightarrow> 'n error + 'n json" where
  "py_get (JObj kvs) k = Inr (case map_of kvs k of None \<Rightarrow> JNull | Some v \<Rightarrow> v)"
| "py_get _ k = Inl AttributeError"

text \<open>
  \<open>x in c\<close> for a \<open>str\<close> \<open>x\<close>: a key of a \<open>dict\<close>, an element of a \<open>list\<close>, a
  substring of a \<open>str\<close>; \<open>None\<close>, a bool and a number are not iterable.
\<close>

fun py_in :: "string \<Rightarrow> 'n json \<Rightarrow> 'n error + bool" where
  "py_in x (JObj kvs) = Inr (x \<in> fst ` set kvs)"
| "py_in x (JArr xs) = Inr (JStr x \<in> set xs)"
| "py_in x (JStr s) = Inr (sublist x s)"
| "py_in x _ = Inl TypeError"

text \<open>The body of \<open>supported_languages\<close>, before the decorators.\<close>

definition supported_languages_wrapped ::
  "'n network \<Rightarrow> YandexTranslate \<Rightarrow> 'n process \<Rightarrow> ('n, 'n json) result" where
  "supported_languages_wrapped net self w =
     (let payload = [(''ui'', ''en''), (''key'', api_key self)]
      in case get_api_response net self ''getLangs'' payload w of
           (Inl e, w') \<Rightarrow> (Inl e, w')
         | (Inr j, w') \<Rightarrow>
             (case py_get j ''langs'' of
                Inl e \<Rightarrow> (Inl e, w')
              | Inr v \<Rightarrow> (Inr v, w')))"

text \<open>
  \<open>functools.lru_cache(maxsize=1)\<close> around a function of \<open>self\<close>: a hit returns the
  stored value; a miss calls the function, and stores the result in the place of the
  entry that was there, unless the function raised.
\<close>

definition cache_lookup :: "'n process \<Rightarrow> YandexTranslate \<Rightarrow> 'n json option" where
  "cache_lookup w self =
     (case cache w of
        None \<Rightarrow> None
      | Some (k, v) \<Rightarrow> if k = ident self then Some v else None)"

definition lru_cache ::
  "(YandexTranslate \<Rightarrow> 'n process \<Rightarrow> ('n, 'n json) result)
     \<Rightarrow> YandexTranslate \<Rightarrow> 'n process \<Rightarrow> ('n, 'n json) result" where
  "lru_cache f self w =
     (case cache_lookup w self of
        Some v \<Rightarrow> (Inr v, w)
      | None \<Rightarrow>
          (case f self w of
             (Inl e, w') \<Rightarrow> (Inl e, w')
           | (Inr v, w') \<Rightarrow> (Inr v, w'\<lparr>cache := Some (ident self, v)\<rparr>)))"

definition supported_languages ::
  "'n network \<Rightarrow> YandexTranslate \<Rightarrow> 'n process \<Rightarrow> ('n, 'n json) result" where
  "supported_languages net = lru_cache (supported_languages_wrapped net)"

definition not_supported :: "string \<Rightarrow> string \<Rightarrow> 'n error" where
  "not_supported which code =
     YandexException
       (JStr (which @ '' language '' @ [CHR 0x27] @ code @ [CHR 0x27] @ '' not supported''))"

definition get_translate_direction ::
  "'n network \<Rightarrow> YandexTranslate \<Rightarrow> string option \<Rightarrow> string \<Rightarrow> 'n process
     \<Rightarrow> ('n, string) result" where
  "get_translate_direction net self source target w =
     (case supported_languages net self w of
        (Inl e, w1) \<Rightarrow> (Inl e, w1)
      | (Inr langs, w1) \<Rightarrow>
          (case py_in target langs of
             Inl e \<Rightarrow> (Inl e, w1)
           | Inr False \<Rightarrow> (Inl (not_supported ''target'' target), w1)
           | Inr True \<Rightarrow>
               (case source of
                  None \<Rightarrow> (Inr target, w1)
                | Some src \<Rightarrow>
                    (case supported_languages net self w1 of
                       (Inl e, w2) \<Rightarrow> (Inl e, w2)
                     | (Inr langs2, w2) \<Rightarrow>
                         (case py_in src langs2 of
                            Inl e \<Rightarrow> (Inl e, w2)
                          | Inr False \<Rightarrow> (Inl (not_supported ''source'' src), w2)
                          | Inr True \<Rightarrow> (Inr (src @ ''-'' @ target), w2))))))"

text \<open>
  \<open>translate(text, target='en', source=None)\<close>. The argument \<open>target\<close> is \<open>None\<close> when
  the caller leaves it out, and then takes its default.
\<close>

definition translate ::
  "'n network \<Rightarrow> YandexTranslate \<Rightarrow> string \<Rightarrow> string option \<Rightarrow> string option \<Rightarrow> 'n process
     \<Rightarrow> ('n, 'n json) result" where
  "translate net self text target_arg source w =
     (let target = (case target_arg of None \<Rightarrow> ''en'' | Some t \<Rightarrow> t)
      in case get_translate_direction net self source target w of
           (Inl e, w') \<Rightarrow> (Inl e, w')
         | (Inr translate_direction, w') \<Rightarrow>
             get_api_response net self ''translate''
               [(''text'', text), (''format'', ''plain''),
                (''lang'', translate_direction), (''key'', api_key self)] w')"

definition detect_language ::
  "'n network \<Rightarrow> YandexTranslate \<Rightarrow> string \<Rightarrow> 'n process \<Rightarrow> ('n, 'n json) result" where
  "detect_language net self text w =
     get_api_response net self ''detect''
       [(''text'', text), (''format'', ''plain''), (''key'', api_key self)] w"

section \<open>Callers\<close>

text \<open>
  The three public operations as a caller reaches them, and a caller that makes a
  sequence of calls on some instances, keeping what each call returned or raised.
\<close>

datatype call =
    Supported_languages
  | Translate string "string option" "string option"
  | Detect_language string

fun is_detect :: "call \<Rightarrow> bool" where
  "is_detect (Detect_language _) = True"
| "is_detect _ = False"

fun invoke ::
  "'n network \<Rightarrow> YandexTranslate \<Rightarrow> call \<Rightarrow> 'n process \<Rightarrow> ('n, 'n json) result" where
  "invoke net self Supported_languages w = supported_languages net self w"
| "invoke net self (Translate text target_arg source) w =
     translate net self text target_arg source w"
| "invoke net self (Detect_language text) w = detect_language net self text w"

fun run ::
  "'n network \<Rightarrow> (YandexTranslate \<times> call) list \<Rightarrow> 'n process
     \<Rightarrow> ('n error + 'n json) list \<times> 'n process" where
  "run net [] w = ([], w)"
| "run net ((self, c) # script) w =
     (case invoke net self c w of
        (r, w') \<Rightarrow> (case run net script w' of (rs, w'') \<Rightarrow> (r # rs, w'')))"

section \<open>The requests of the three endpoints\<close>

definition getLangs_request :: "YandexTranslate \<Rightarrow> request" where
  "getLangs_request self =
     \<lparr>session = ident self, url = URL @ ''getLangs'',
      params = [(''ui'', ''en''), (''key'', api_key self)]\<rparr>"

definition translate_request :: "YandexTranslate \<Rightarrow> string \<Rightarrow> string \<Rightarrow> request" where
  "translate_request self text lang =
     \<lparr>session = ident self, url = URL @ ''translate'',
      params = [(''text'', text), (''format'', ''plain''), (''lang'', lang),
                (''key'', api_key self)]\<rparr>"

definition detect_request :: "YandexTranslate \<Rightarrow> string \<Rightarrow> request" where
  "detect_request self text =
     \<lparr>session = ident self, url = URL @ ''detect'',
      params = [(''text'', text), (''format'', ''plain''), (''key'', api_key self)]\<rparr>"

text \<open>The requests made between two states of the process.\<close>

definition issued :: "'n process \<Rightarrow> 'n process \<Rightarrow> request list" where
  "issued w w' = drop (length (sent w)) (sent w')"

text \<open>How many times the language list was requested through an instance's session.\<close>

definition fetches :: "YandexTranslate \<Rightarrow> 'n process \<Rightarrow> nat" where
  "fetches self w = length (filter (\<lambda>r. r = getLangs_request self) (sent w))"

section \<open>Sample instances, services and processes\<close>

definition client :: YandexTranslate where
  "client = \<lparr>ident = 0, api_key = ''secret''\<rparr>"

definition other_client :: YandexTranslate where
  "other_client = \<lparr>ident = 1, api_key = ''secret''\<rparr>"

definition start :: "int process" where
  "start = \<lparr>sent = [], cache = None, next_ident = 2\<rparr>"

definition langs_body :: "int json" where
  "langs_body =
     JObj [(''dirs'', JArr [JStr ''en-es'', JStr ''en-pl'']),
           (''langs'', JObj [(''en'', JStr ''English''), (''es'', JStr ''Spanish''),
                             (''pl'', JStr ''Polish'')])]"

definition langs_value :: "int json" where
  "langs_value =
     JObj [(''en'', JStr ''English''), (''es'', JStr ''Spanish''), (''pl'', JStr ''Polish'')]"

definition answer_body :: "int json" where
  "answer_body = JObj [(''code'', JNum 200), (''lang'', JStr ''fr'')]"

definition invalid_key_body :: "int json" where
  "invalid_key_body = JObj [(''code'', JNum 401), (''message'', JStr ''ApiKeyInvalid'')]"

text \<open>A service that is up, one that rejects the key, and one that cannot be reached.\<close>

definition service :: "int network" where
  "service h req =
     (if url req = URL @ ''getLangs'' then Response 200 (Some langs_body)
      else Response 200 (Some answer_body))"

definition rejecting :: "int network" where
  "rejecting h req = Response 401 (Some invalid_key_body)"

definition offline :: "int network" where
  "offline h req = ConnectionError"

text \<open>A service that answers \<open>getLangs\<close> without the field \<open>langs\<close>.\<close>

definition silent :: "int network" where
  "silent h req = Response 200 (Some (JObj [(''dirs'', JArr [JStr ''en-es''])]))"

text \<open>A service whose language list grows by one code with every request it has seen.\<close>

definition growing :: "int network" where
  "growing h req = Response 200 (Some (JObj [(''langs'', JArr (replicate (length h) (JStr ''en'')))]))"

text \<open>A service that cannot be reached for the first request and is up afterwards.\<close>

definition recovering :: "int network" where
  "recovering h req = (if h = [] then ConnectionError else service h req)"

text \<open>Two instances read the property in turn: the first, the second, the first again.\<close>

definition in_turn :: "(YandexTranslate \<times> call) list" where
  "in_turn =
     [(client, Supported_languages), (other_client, Supported_languages),
      (client, Supported_languages)]"

text \<open>The process after the first instance has fetched the languages from the service.\<close>

definition fetched :: "int process" where
  "fetched = start\<lparr>sent := [getLangs_request client], cache := Some (0, langs_value)\<rparr>"

text \<open>Calls on the first instance, with a detection on the second in between.\<close>

definition own_calls :: "(YandexTranslate \<times> call) list" where
  "own_calls =
     [(client, Supported_languages), (other_client, Detect_language ''Bonjour''),
      (client, Translate ''hello'' (Some ''es'') None), (client, Supported_languages)]"

text \<open>
  What the three clauses of the failure mapping say of one request \<open>req\<close> of a call
  \<open>op\<close>, answered by \<open>out\<close>, when the call ends in \<open>r\<close>.
\<close>

definition mapped :: "call \<Rightarrow> request \<Rightarrow> 'n outcome \<Rightarrow> 'n error + 'n json \<Rightarrow> bool" where
  "mapped op req out r \<longleftrightarrow>
     (out = ConnectionError \<longrightarrow> r = Inl (YandexException (JStr ''API unavailable'')))
     \<and> (\<forall>st b. out = Response st (Some b) \<and> st \<noteq> 200 \<longrightarrow> r = Inl (YandexException b))
     \<and> (\<forall>b. out = Response 200 (Some b) \<longrightarrow>
          (case op of
             Supported_languages \<Rightarrow> r = py_get b ''langs''
           | Translate _ _ _ \<Rightarrow> url req = URL @ ''translate'' \<longrightarrow> r = Inr b
           | Detect_language _ \<Rightarrow> r = Inr b))"

section \<open>The request helper and the memoized property, step by step\<close>

lemma get_api_response_process:
  "snd (get_api_response net self endpoint payload w) =
     w\<lparr>sent := sent w @ [\<lparr>session = ident self, url = URL @ endpoint, params = payload\<rparr>]\<rparr>"
  by (simp add: get_api_response_def Let_def split: outcome.split option.split)

lemma get_api_response_value:
  "fst (get_api_response net self endpoint payload w) =
     (case net (sent w) \<lparr>session = ident self, url = URL @ endpoint, params = payload\<rparr> of
        ConnectionError \<Rightarrow> Inl (YandexException (JStr ''API unavailable''))
      | Raises e \<Rightarrow> Inl (OtherException e)
      | Response status_code body \<Rightarrow>
          (case body of
             None \<Rightarrow> Inl JSONDecodeError
           | Some j \<Rightarrow> if status_code \<noteq> 200 then Inl (YandexException j) else Inr j))"
  by (simp add: get_api_response_def Let_def split: outcome.split option.split)

lemma wrapped_process:
  "snd (supported_languages_wrapped net self w) = w\<lparr>sent := sent w @ [getLangs_request self]\<rparr>"
  by (cases "get_api_response net self ''getLangs'' [(''ui'', ''en''), (''key'', api_key self)] w")
     (use get_api_response_process [of net self "''getLangs''" "[(''ui'', ''en''), (''key'', api_key self)]" w]
      in \<open>auto simp: supported_languages_wrapped_def getLangs_request_def split: sum.split\<close>)

lemma wrapped_value:
  "fst (supported_languages_wrapped net self w) =
     (case net (sent w) (getLangs_request self) of
        ConnectionError \<Rightarrow> Inl (YandexException (JStr ''API unavailable''))
      | Raises e \<Rightarrow> Inl (OtherException e)
      | Response status_code body \<Rightarrow>
          (case body of
             None \<Rightarrow> Inl JSONDecodeError
           | Some j \<Rightarrow> if status_code \<noteq> 200 then Inl (YandexException j) else py_get j ''langs''))"
  by (cases "get_api_response net self ''getLangs'' [(''ui'', ''en''), (''key'', api_key self)] w")
     (use get_api_response_value [of net self "''getLangs''" "[(''ui'', ''en''), (''key'', api_key self)]" w]
      in \<open>auto simp: supported_languages_wrapped_def getLangs_request_def split: sum.split outcome.split option.split\<close>)

lemma supported_languages_hit:
  "cache_lookup w self = Some v \<Longrightarrow> supported_languages net self w = (Inr v, w)"
  by (simp add: supported_languages_def lru_cache_def)

lemma supported_languages_miss:
  "cache_lookup w self = None \<Longrightarrow>
   supported_languages net self w =
     (case fst (supported_languages_wrapped net self w) of
        Inl e \<Rightarrow> (Inl e, w\<lparr>sent := sent w @ [getLangs_request self]\<rparr>)
      | Inr v \<Rightarrow> (Inr v, w\<lparr>sent := sent w @ [getLangs_request self], cache := Some (ident self, v)\<rparr>))"
  by (cases "supported_languages_wrapped net self w")
     (use wrapped_process [of net self w]
      in \<open>auto simp: supported_languages_def lru_cache_def split: sum.split\<close>)

lemma supported_languages_raises_miss:
  "fst (supported_languages net self w) = Inl e \<Longrightarrow> cache_lookup w self = None"
  by (cases "cache_lookup w self") (simp_all add: supported_languages_hit)

lemma cache_lookup_sent [simp]:
  "cache_lookup (w\<lparr>sent := l\<rparr>) self = cache_lookup w self"
  by (simp add: cache_lookup_def)

lemma cache_lookup_stored [simp]:
  "cache_lookup (w\<lparr>cache := Some (ident self, v)\<rparr>) self = Some v"
  by (simp add: cache_lookup_def)

lemma supported_languages_returns:
  assumes "fst (supported_languages net self w) = Inr v"
  shows "cache_lookup (snd (supported_languages net self w)) self = Some v"
    and "snd (supported_languages net self w) = w
         \<or> snd (supported_languages net self w)
             = w\<lparr>sent := sent w @ [getLangs_request self], cache := Some (ident self, v)\<rparr>"
proof -
  show "cache_lookup (snd (supported_languages net self w)) self = Some v"
  proof (cases "cache_lookup w self")
    case None
    with assms show ?thesis
      by (simp add: supported_languages_miss split: sum.splits)
  next
    case (Some u)
    with assms show ?thesis
      by (simp add: supported_languages_hit)
  qed
  show "snd (supported_languages net self w) = w
         \<or> snd (supported_languages net self w)
             = w\<lparr>sent := sent w @ [getLangs_request self], cache := Some (ident self, v)\<rparr>"
  proof (cases "cache_lookup w self")
    case None
    with assms show ?thesis
      by (simp add: supported_languages_miss split: sum.splits)
  next
    case (Some u)
    then show ?thesis
      by (simp add: supported_languages_hit)
  qed
qed

lemma direction_after_fetch:
  assumes "fst (supported_languages net self w) = Inr langs"
  shows "get_translate_direction net self source target w =
     (case py_in target langs of
        Inl e \<Rightarrow> Inl e
      | Inr False \<Rightarrow> Inl (not_supported ''target'' target)
      | Inr True \<Rightarrow>
          (case source of
             None \<Rightarrow> Inr target
           | Some src \<Rightarrow>
               (case py_in src langs of
                  Inl e \<Rightarrow> Inl e
                | Inr False \<Rightarrow> Inl (not_supported ''source'' src)
                | Inr True \<Rightarrow> Inr (src @ ''-'' @ target))),
      snd (supported_languages net self w))"
proof -
  obtain w1 where a: "supported_languages net self w = (Inr langs, w1)"
    using assms by (cases "supported_languages net self w") simp
  have h: "supported_languages net self w1 = (Inr langs, w1)"
    using supported_languages_returns(1) [OF assms] a
    by (simp add: supported_languages_hit)
  show ?thesis
    by (simp add: get_translate_direction_def a h split: sum.split bool.split option.split)
qed

lemma service_fetch:
  "supported_languages service client start
     = (Inr langs_value,
        start\<lparr>sent := [getLangs_request client], cache := Some (0, langs_value)\<rparr>)"
proof -
  have m: "cache_lookup start client = None"
    by (simp add: cache_lookup_def start_def)
  have e: "sent start = []" "ident client = 0"
    by (simp_all add: start_def client_def)
  have g: "service [] (getLangs_request client) = Response 200 (Some langs_body)"
    by (simp add: service_def getLangs_request_def)
  have l: "py_get langs_body ''langs'' = Inr langs_value"
    by (simp add: langs_body_def langs_value_def)
  show ?thesis
    by (simp add: supported_languages_miss [OF m] wrapped_value e g l)
qed

lemma client_fields:
  "ident client = 0" "api_key client = ''secret''"
  by (simp_all add: client_def)

lemma sample_codes:
  "py_in ''zz'' langs_value = Inr False"
  "py_in ''en'' langs_value = Inr True"
  "py_in ''es'' langs_value = Inr True"
  by (simp_all add: langs_value_def)

lemma run_hits:
  "cache_lookup w self = Some v \<Longrightarrow>
   run net (replicate n (self, Supported_languages)) w = (replicate n (Inr v), w)"
  by (induction n) (simp_all add: supported_languages_hit)

lemma sample_instances:
  "init ''secret'' \<lparr>sent = [], cache = None, next_ident = 0\<rparr>
     = (client, \<lparr>sent = [], cache = None :: (nat \<times> int json) option, next_ident = 1\<rparr>)"
  "init ''secret'' \<lparr>sent = [], cache = None, next_ident = 1\<rparr> = (other_client, start)"
  by (simp_all add: init_def client_def other_client_def start_def)

lemma translate_on_hit:
  assumes "cache_lookup w self = Some langs"
  shows "snd (translate net self text target_arg source w) = w
         \<or> (\<exists>lang. snd (translate net self text target_arg source w)
               = w\<lparr>sent := sent w @ [translate_request self text lang]\<rparr>)"
proof -
  have a: "fst (supported_languages net self w) = Inr langs"
    and b: "snd (supported_languages net self w) = w"
    using assms by (simp_all add: supported_languages_hit)
  obtain r where r: "get_translate_direction net self source
      (case target_arg of None \<Rightarrow> ''en'' | Some t \<Rightarrow> t) w = (r, w)"
    by (simp add: direction_after_fetch [OF a] b)
  show ?thesis
  proof (cases r)
    case (Inl e)
    with r show ?thesis
      by (simp add: translate_def)
  next
    case (Inr lang)
    with r have "snd (translate net self text target_arg source w)
               = w\<lparr>sent := sent w @ [translate_request self text lang]\<rparr>"
      by (simp add: translate_def get_api_response_process translate_request_def)
    then show ?thesis
      by blast
  qed
qed

lemma invoke_keeps_entry:
  assumes "cache w = Some (k, v)" and "ident c = k \<or> is_detect op"
  shows "cache (snd (invoke net c op w)) = Some (k, v)
         \<and> filter (\<lambda>r. url r = URL @ ''getLangs'') (sent (snd (invoke net c op w)))
             = filter (\<lambda>r. url r = URL @ ''getLangs'') (sent w)
         \<and> (op = Supported_languages \<longrightarrow> fst (invoke net c op w) = Inr v)"
proof (cases op)
  case Supported_languages
  with assms have "cache_lookup w c = Some v"
    by (simp add: cache_lookup_def)
  with Supported_languages assms(1) show ?thesis
    by (simp add: supported_languages_hit)
next
  case (Translate t target_arg source)
  with assms have "cache_lookup w c = Some v"
    by (simp add: cache_lookup_def)
  from translate_on_hit [OF this, of net t target_arg source] Translate assms(1)
  show ?thesis
    by (auto simp: translate_request_def)
next
  case (Detect_language t)
  with assms(1) show ?thesis
    by (simp add: detect_language_def get_api_response_process)
qed

lemma mapped_helper:
  "op \<noteq> Supported_languages \<Longrightarrow>
   mapped op \<lparr>session = ident self, url = URL @ endpoint, params = payload\<rparr>
     (net (sent w) \<lparr>session = ident self, url = URL @ endpoint, params = payload\<rparr>)
     (fst (get_api_response net self endpoint payload w))"
  by (cases op) (auto simp: mapped_def get_api_response_value)

lemma mapped_wrapped:
  "mapped Supported_languages (getLangs_request self) (net (sent w) (getLangs_request self))
     (fst (supported_languages_wrapped net self w))"
  by (simp add: mapped_def wrapped_value)

lemma mapped_fetched:
  assumes "fst (supported_languages_wrapped net self w) = Inr v"
  shows "mapped (Translate t target_arg source) (getLangs_request self)
           (net (sent w) (getLangs_request self)) r"
  using assms
  by (auto simp: mapped_def wrapped_value getLangs_request_def
        split: outcome.splits option.splits if_splits)

lemma one_request:
  "[a] = pre @ req # post \<longleftrightarrow> pre = [] \<and> req = a \<and> post = []"
  by (cases pre) auto

lemma two_requests:
  "[a, b] = pre @ req # post \<longleftrightarrow>
     pre = [] \<and> req = a \<and> post = [b] \<or> pre = [a] \<and> req = b \<and> post = []"
proof (cases pre)
  case Nil
  then show ?thesis by auto
next
  case (Cons x xs)
  then show ?thesis by (cases xs) auto
qed


lemma mapped_fetch_failed:
  assumes "fst (supported_languages_wrapped net self w) = Inl e"
  shows "mapped (Translate t target_arg source) (getLangs_request self)
           (net (sent w) (getLangs_request self)) (Inl e)"
  using assms
  by (auto simp: mapped_def wrapped_value getLangs_request_def
        split: outcome.splits option.splits if_splits)

lemma issued_same [simp]: "issued w w = []"
  by (simp add: issued_def)

lemma issued_one [simp]: "issued w (w\<lparr>sent := sent w @ l\<rparr>) = l"
  by (simp add: issued_def)

lemma issued_one_cached [simp]: "issued w (w\<lparr>sent := sent w @ l, cache := c\<rparr>) = l"
  by (simp add: issued_def)

lemma detect_mapped:
  assumes "detect_language net self t w = (r, w')"
  shows "sent w' = sent w @ issued w w'"
    and "issued w w' = pre @ req # post \<Longrightarrow>
         mapped (Detect_language t) req (net (sent w @ pre) req) r"
proof -
  let ?pl = "[(''text'', t), (''format'', ''plain''), (''key'', api_key self)]"
  let ?req = "\<lparr>session = ident self, url = URL @ ''detect'', params = ?pl\<rparr>"
  from assms have r: "r = fst (get_api_response net self ''detect'' ?pl w)"
    and w': "w' = w\<lparr>sent := sent w @ [?req]\<rparr>"
    using get_api_response_process [of net self "''detect''" ?pl w]
    by (simp_all add: detect_language_def)
  show "sent w' = sent w @ issued w w'"
    by (simp add: w')
  assume "issued w w' = pre @ req # post"
  then have "pre = []" "req = ?req"
    by (simp_all add: w' one_request)
  then show "mapped (Detect_language t) req (net (sent w @ pre) req) r"
    using mapped_helper [of "Detect_language t" self "''detect''" ?pl net w]
    by (simp add: r)
qed

lemma read_mapped:
  assumes "supported_languages net self w = (r, w')"
  shows "sent w' = sent w @ issued w w'"
    and "issued w w' = pre @ req # post \<Longrightarrow>
         mapped Supported_languages req (net (sent w @ pre) req) r"
proof -
  have "sent w' = sent w @ issued w w'
        \<and> (issued w w' = pre @ req # post \<longrightarrow>
             mapped Supported_languages req (net (sent w @ pre) req) r)"
  proof (cases "cache_lookup w self")
    case (Some v)
    with assms show ?thesis
      by (simp add: supported_languages_hit)
  next
    case None
    show ?thesis
    proof (cases "fst (supported_languages_wrapped net self w)")
      case (Inl e)
      with None assms mapped_wrapped [of self net w] show ?thesis
        by (auto simp: supported_languages_miss one_request)
    next
      case (Inr v)
      with None assms mapped_wrapped [of self net w] show ?thesis
        by (auto simp: supported_languages_miss one_request)
    qed
  qed
  then show "sent w' = sent w @ issued w w'"
    and "issued w w' = pre @ req # post \<Longrightarrow>
         mapped Supported_languages req (net (sent w @ pre) req) r"
    by simp_all
qed


lemma translate_request_mapped:
  assumes "get_api_response net self ''translate''
             [(''text'', t), (''format'', ''plain''), (''lang'', lang), (''key'', api_key self)] w1
           = (r, w')"
  shows "w' = w1\<lparr>sent := sent w1 @ [translate_request self t lang]\<rparr>"
    and "mapped (Translate t target_arg source) (translate_request self t lang)
           (net (sent w1) (translate_request self t lang)) r"
proof -
  let ?pl = "[(''text'', t), (''format'', ''plain''), (''lang'', lang), (''key'', api_key self)]"
  from assms have r: "r = fst (get_api_response net self ''translate'' ?pl w1)"
    by simp
  show "w' = w1\<lparr>sent := sent w1 @ [translate_request self t lang]\<rparr>"
    using assms get_api_response_process [of net self "''translate''" ?pl w1]
    by (simp add: translate_request_def)
  show "mapped (Translate t target_arg source) (translate_request self t lang)
           (net (sent w1) (translate_request self t lang)) r"
    using mapped_helper [of "Translate t target_arg source" self "''translate''" ?pl net w1]
    by (simp add: r translate_request_def)
qed

lemma translate_mapped:
  assumes "translate net self t target_arg source w = (r, w')"
  shows "sent w' = sent w @ issued w w'
         \<and> (issued w w' = pre @ req # post \<longrightarrow>
              mapped (Translate t target_arg source) req (net (sent w @ pre) req) r)"
proof -
  let ?op = "Translate t target_arg source"
  let ?target = "case target_arg of None \<Rightarrow> ''en'' | Some c \<Rightarrow> c"
  let ?gl = "getLangs_request self"
  show ?thesis
  proof (cases "cache_lookup w self")
    case (Some langs)
    then have a: "fst (supported_languages net self w) = Inr langs"
      and b: "snd (supported_languages net self w) = w"
      by (simp_all add: supported_languages_hit)
    obtain d where d: "get_translate_direction net self source ?target w = (d, w)"
      by (simp add: direction_after_fetch [OF a] b)
    show ?thesis
    proof (cases d)
      case (Inl e)
      with d assms show ?thesis
        by (simp add: translate_def)
    next
      case (Inr lang)
      with d assms have g: "get_api_response net self ''translate''
             [(''text'', t), (''format'', ''plain''), (''lang'', lang), (''key'', api_key self)] w
           = (r, w')"
        by (simp add: translate_def)
      from translate_request_mapped(1) [OF g]
        translate_request_mapped(2) [OF g, of target_arg source]
      show ?thesis
        by (auto simp: one_request)
    qed
  next
    case None
    show ?thesis
    proof (cases "fst (supported_languages_wrapped net self w)")
      case (Inl e)
      with None have "supported_languages net self w
          = (Inl e, w\<lparr>sent := sent w @ [?gl]\<rparr>)"
        by (simp add: supported_languages_miss)
      with assms have "r = Inl e" "w' = w\<lparr>sent := sent w @ [?gl]\<rparr>"
        by (simp_all add: translate_def get_translate_direction_def)
      with mapped_fetch_failed [OF Inl, of t target_arg source] show ?thesis
        by (auto simp: one_request)
    next
      case (Inr v)
      let ?w1 = "w\<lparr>sent := sent w @ [?gl], cache := Some (ident self, v)\<rparr>"
      from Inr None have s: "supported_languages net self w = (Inr v, ?w1)"
        by (simp add: supported_languages_miss)
      then have a: "fst (supported_languages net self w) = Inr v"
        and b: "snd (supported_languages net self w) = ?w1"
        by simp_all
      obtain d where d: "get_translate_direction net self source ?target w = (d, ?w1)"
        by (simp add: direction_after_fetch [OF a] b)
      note f = mapped_fetched [OF Inr, of t target_arg source]
      show ?thesis
      proof (cases d)
        case (Inl e)
        with d assms have "r = Inl e" "w' = ?w1"
          by (simp_all add: translate_def)
        with f [of r] show ?thesis
          by (auto simp: one_request)
      next
        case (Inr lang)
        with d assms have g: "get_api_response net self ''translate''
             [(''text'', t), (''format'', ''plain''), (''lang'', lang), (''key'', api_key self)] ?w1
           = (r, w')"
          by (simp add: translate_def)
        note h = translate_request_mapped(1) [OF g]
          translate_request_mapped(2) [OF g, of target_arg source]
        from h(1) have sw: "sent w' = sent w @ [?gl, translate_request self t lang]"
          by simp
        then have i: "issued w w' = [?gl, translate_request self t lang]"
          by (simp add: issued_def)
        have e: "sent w' = sent w @ issued w w'"
          unfolding i by (rule sw)
        have "issued w w' = pre @ req # post \<longrightarrow>
              mapped ?op req (net (sent w @ pre) req) r"
        proof
          assume "issued w w' = pre @ req # post"
          then have "pre = [] \<and> req = ?gl \<or> pre = [?gl] \<and> req = translate_request self t lang"
            by (auto simp: i two_requests)
          then show "mapped ?op req (net (sent w @ pre) req) r"
          proof
            assume "pre = [] \<and> req = ?gl"
            with f [of r] show ?thesis by simp
          next
            assume "pre = [?gl] \<and> req = translate_request self t lang"
            with h(2) show ?thesis by simp
          qed
        qed
        with e show ?thesis
          by simp
      qed
    qed
  qed
qed

lemma start_fields:
  "sent start = []" "cache start = None" "cache_lookup start c = None"
  by (simp_all add: start_def cache_lookup_def)

lemma entry_kept_run:
  "cache w = Some (ident self, v)
   \<and> (\<forall>(c, op) \<in> set script. ident c = ident self \<or> is_detect op)
   \<longrightarrow> cache (snd (run net script w)) = Some (ident self, v)
       \<and> filter (\<lambda>r. url r = URL @ ''getLangs'') (sent (snd (run net script w)))
           = filter (\<lambda>r. url r = URL @ ''getLangs'') (sent w)
       \<and> list_all2 (\<lambda>(c, op) r. op = Supported_languages \<longrightarrow> r = Inr v)
           script (fst (run net script w))"
proof (induction script arbitrary: w)
  case Nil
  show ?case by simp
next
  case (Cons x script)
  obtain c op where x: "x = (c, op)"
    by (cases x)
  obtain r w' where i: "invoke net c op w = (r, w')"
    by (cases "invoke net c op w")
  show ?case
  proof
    assume a: "cache w = Some (ident self, v)
      \<and> (\<forall>(c, op) \<in> set (x # script). ident c = ident self \<or> is_detect op)"
    then have d: "ident c = ident self \<or> is_detect op"
      by (simp add: x)
    from a have "cache w = Some (ident self, v)"
      by simp
    from invoke_keeps_entry [OF this d, of net, unfolded i fst_conv snd_conv]
    have k: "cache w' = Some (ident self, v)"
      and f: "filter (\<lambda>r. url r = URL @ ''getLangs'') (sent w')
               = filter (\<lambda>r. url r = URL @ ''getLangs'') (sent w)"
      and v: "op = Supported_languages \<longrightarrow> r = Inr v"
      by simp_all
    from a have "\<forall>(c, op) \<in> set script. ident c = ident self \<or> is_detect op"
      by simp
    with Cons.IH [of w'] k
    have "cache (snd (run net script w')) = Some (ident self, v)
       \<and> filter (\<lambda>r. url r = URL @ ''getLangs'') (sent (snd (run net script w')))
           = filter (\<lambda>r. url r = URL @ ''getLangs'') (sent w')
       \<and> list_all2 (\<lambda>(c, op) r. op = Supported_languages \<longrightarrow> r = Inr v)
           script (fst (run net script w'))"
      by simp
    with f v
    show "cache (snd (run net (x # script) w)) = Some (ident self, v)
       \<and> filter (\<lambda>r. url r = URL @ ''getLangs'') (sent (snd (run net (x # script) w)))
           = filter (\<lambda>r. url r = URL @ ''getLangs'') (sent w)
       \<and> list_all2 (\<lambda>(c, op) r. op = Supported_languages \<longrightarrow> r = Inr v)
           (x # script) (fst (run net (x # script) w))"
      by (cases "run net script w'") (simp add: x i)
  qed
qed

lemma read_after_miss:
  "cache_lookup w self = None \<Longrightarrow>
   sent (snd (supported_languages net self w)) = sent w @ [getLangs_request self]"
  by (cases "fst (supported_languages_wrapped net self w)")
     (simp_all add: supported_languages_miss)

lemma other_call_cache:
  assumes "cache_lookup w c = None" and "\<not> is_detect op"
  shows "cache (snd (invoke net c op w))
           = (case fst (supported_languages_wrapped net c w) of
                Inl e \<Rightarrow> cache w
              | Inr u \<Rightarrow> Some (ident c, u))"
proof (cases op)
  case Supported_languages
  with assms(1) show ?thesis
    by (simp add: supported_languages_miss split: sum.split)
next
  case (Translate t target_arg source)
  let ?target = "case target_arg of None \<Rightarrow> ''en'' | Some x \<Rightarrow> x"
  show ?thesis
  proof (cases "fst (supported_languages_wrapped net c w)")
    case (Inl e)
    with assms(1) have "supported_languages net c w
        = (Inl e, w\<lparr>sent := sent w @ [getLangs_request c]\<rparr>)"
      by (simp add: supported_languages_miss)
    then have "translate net c t target_arg source w
        = (Inl e, w\<lparr>sent := sent w @ [getLangs_request c]\<rparr>)"
      by (simp add: translate_def get_translate_direction_def)
    with Inl Translate show ?thesis
      by simp
  next
    case (Inr u)
    let ?w1 = "w\<lparr>sent := sent w @ [getLangs_request c], cache := Some (ident c, u)\<rparr>"
    from Inr assms(1) have s: "supported_languages net c w = (Inr u, ?w1)"
      by (simp add: supported_languages_miss)
    then have a: "fst (supported_languages net c w) = Inr u"
      and b: "snd (supported_languages net c w) = ?w1"
      by simp_all
    obtain d where d: "get_translate_direction net c source ?target w = (d, ?w1)"
      by (simp add: direction_after_fetch [OF a] b)
    have "cache (snd (translate net c t target_arg source w)) = Some (ident c, u)"
    proof (cases d)
      case (Inl e)
      with d show ?thesis
        by (simp add: translate_def)
    next
      case (Inr lang)
      with d show ?thesis
        by (simp add: translate_def get_api_response_process)
    qed
    with Inr Translate show ?thesis
      by simp
  qed
next
  case (Detect_language t)
  with assms(2) show ?thesis
    by simp
qed

section \<open>Detecting a language\<close>

text \<open>
  C7. For every text, \<open>detect_language\<close> makes exactly one call of \<open>session.get\<close>, to the
  \<open>detect\<close> endpoint, with exactly the parameters \<open>text\<close>, \<open>format = plain\<close> and
  \<open>key\<close>, whatever the state of the language cache is (nothing is validated), and on a
  200 answer returns the decoded body as it is.
\<close>

theorem detect_language_pass_through:
  "sent (snd (detect_language net self text w)) = sent w @ [detect_request self text]
   \<and> (net (sent w) (detect_request self text) = Response 200 (Some j)
        \<longrightarrow> fst (detect_language net self text w) = Inr j)"
  by (simp add: detect_language_def detect_request_def get_api_response_process
        get_api_response_value)

theorem detect_language_pass_through_witness:
  "service (sent start) (detect_request client ''Bonjour'') = Response 200 (Some answer_body)
   \<and> fst (detect_language service client ''Bonjour'' start) = Inr answer_body
   \<and> sent (snd (detect_language service client ''Bonjour'' start))
       = [\<lparr>session = 0, url = URL @ ''detect'',
           params = [(''text'', ''Bonjour''), (''format'', ''plain''), (''key'', ''secret'')]\<rparr>]"
  using detect_language_pass_through [of service client "''Bonjour''" start answer_body]
  by (simp add: service_def detect_request_def start_def client_def)

text \<open>
  C10. \<open>detect_language\<close> changes nothing in the process but the list of requests, to
  which it adds its one \<open>detect\<close> request, which is no \<open>getLangs\<close> request of any
  instance; the language cache is as before, and what the call returns does not depend on
  what the cache holds.
\<close>

theorem detect_language_frame:
  "snd (detect_language net self text w) = w\<lparr>sent := sent w @ [detect_request self text]\<rparr>
   \<and> url (detect_request self text) \<noteq> url (getLangs_request other)
   \<and> fst (detect_language net self text (w\<lparr>cache := c\<rparr>)) = fst (detect_language net self text w)"
  by (simp add: detect_language_def detect_request_def getLangs_request_def
        get_api_response_process get_api_response_value)

section \<open>The supported languages\<close>

text \<open>
  C8. When the cache holds nothing for the instance, \<open>supported_languages\<close> makes one
  request, to \<open>getLangs\<close> with exactly the parameters \<open>ui = en\<close> and \<open>key\<close>, and on a
  200 answer whose body is a \<open>dict\<close> with a field \<open>langs\<close> returns the value of that
  field.
\<close>

theorem supported_languages_first_call:
  "cache_lookup w self = None \<longrightarrow>
     sent (snd (supported_languages net self w)) = sent w @ [getLangs_request self]
     \<and> (net (sent w) (getLangs_request self) = Response 200 (Some (JObj kvs))
          \<and> map_of kvs ''langs'' = Some v
        \<longrightarrow> fst (supported_languages net self w) = Inr v)"
  by (auto simp: supported_languages_miss wrapped_value split: sum.split)

theorem supported_languages_first_call_witness:
  "cache_lookup start client = None
   \<and> service (sent start) (getLangs_request client) = Response 200 (Some langs_body)
   \<and> fst (supported_languages service client start) = Inr langs_value
   \<and> sent (snd (supported_languages service client start))
       = [\<lparr>session = 0, url = URL @ ''getLangs'',
           params = [(''ui'', ''en''), (''key'', ''secret'')]\<rparr>]"
  using supported_languages_first_call [of start client service
      "[(''dirs'', JArr [JStr ''en-es'', JStr ''en-pl'']), (''langs'', langs_value)]" langs_value]
  by (simp add: service_def getLangs_request_def start_def client_def cache_lookup_def
        langs_body_def langs_value_def)

text \<open>
  C6. A call of \<open>supported_languages\<close> that raises stores nothing: the cache is as it
  was before the call, and the next call on the same instance sends the \<open>getLangs\<close>
  request again and returns or raises what that fresh request gives.
\<close>

theorem failure_not_memoized:
  "fst (supported_languages net self w) = Inl e \<longrightarrow>
     cache (snd (supported_languages net self w)) = cache w
     \<and> sent (snd (supported_languages net self (snd (supported_languages net self w))))
         = sent (snd (supported_languages net self w)) @ [getLangs_request self]
     \<and> fst (supported_languages net self (snd (supported_languages net self w)))
         = fst (supported_languages_wrapped net self (snd (supported_languages net self w)))"
proof
  assume f: "fst (supported_languages net self w) = Inl e"
  then have m: "cache_lookup w self = None"
    by (rule supported_languages_raises_miss)
  from f have s: "snd (supported_languages net self w) = w\<lparr>sent := sent w @ [getLangs_request self]\<rparr>"
    by (simp add: supported_languages_miss [OF m] split: sum.splits)
  have m': "cache_lookup (w\<lparr>sent := sent w @ [getLangs_request self]\<rparr>) self = None"
    using m by simp
  show "cache (snd (supported_languages net self w)) = cache w
     \<and> sent (snd (supported_languages net self (snd (supported_languages net self w))))
         = sent (snd (supported_languages net self w)) @ [getLangs_request self]
     \<and> fst (supported_languages net self (snd (supported_languages net self w)))
         = fst (supported_languages_wrapped net self (snd (supported_languages net self w)))"
    unfolding s by (simp add: supported_languages_miss [OF m'] split: sum.split)
qed

theorem failure_not_memoized_witness:
  "fst (supported_languages recovering client start)
     = Inl (YandexException (JStr ''API unavailable''))
   \<and> cache (snd (supported_languages recovering client start)) = None
   \<and> sent (snd (supported_languages recovering client
                  (snd (supported_languages recovering client start))))
       = [getLangs_request client, getLangs_request client]
   \<and> fst (supported_languages recovering client
             (snd (supported_languages recovering client start))) = Inr langs_value"
proof -
  have m: "cache_lookup start client = None"
    by (simp add: cache_lookup_def start_def)
  have f: "supported_languages recovering client start
             = (Inl (YandexException (JStr ''API unavailable'')),
                start\<lparr>sent := [getLangs_request client]\<rparr>)"
  proof -
    have e: "sent start = []" by (simp add: start_def)
    show ?thesis
      by (simp add: supported_languages_miss [OF m] wrapped_value recovering_def e)
  qed
  have m': "cache_lookup (start\<lparr>sent := [getLangs_request client]\<rparr>) client = None"
    using m by simp
  have g: "fst (supported_languages_wrapped recovering client (start\<lparr>sent := [getLangs_request client]\<rparr>))
             = Inr langs_value"
    by (simp add: wrapped_value recovering_def service_def getLangs_request_def
          langs_body_def langs_value_def)
  have c: "cache start = None" by (simp add: start_def)
  show ?thesis
    using failure_not_memoized [of recovering client start "YandexException (JStr ''API unavailable'')"]
      c
    by (simp add: f g)
qed

text \<open>
  C9. When the cache holds nothing for the instance and the 200 answer to \<open>getLangs\<close> is
  a \<open>dict\<close> without the field \<open>langs\<close>, \<open>supported_languages\<close> returns \<open>None\<close>
  without raising, and every later \<open>translate\<close> on the instance raises the \<open>TypeError\<close>
  of the membership test, which is no \<open>YandexException\<close>.
\<close>

theorem missing_langs_field:
  "cache_lookup w self = None
   \<and> net (sent w) (getLangs_request self) = Response 200 (Some (JObj kvs))
   \<and> map_of kvs ''langs'' = None
   \<longrightarrow> fst (supported_languages net self w) = Inr JNull
       \<and> fst (translate net self text target_arg source (snd (supported_languages net self w)))
           = Inl TypeError
       \<and> \<not> is_YandexException (TypeError :: 'n error)"
  by (auto simp: supported_languages_miss wrapped_value translate_def
        get_translate_direction_def supported_languages_hit)

theorem missing_langs_field_witness:
  "cache_lookup start client = None
   \<and> silent (sent start) (getLangs_request client)
       = Response 200 (Some (JObj [(''dirs'', JArr [JStr ''en-es''])]))
   \<and> map_of [(''dirs'', JArr [JStr ''en-es''] :: int json)] ''langs'' = None
   \<and> fst (supported_languages silent client start) = Inr JNull
   \<and> fst (translate silent client ''hello'' (Some ''es'') None
            (snd (supported_languages silent client start))) = Inl TypeError"
  using missing_langs_field [of start client silent "[(''dirs'', JArr [JStr ''en-es''])]"
      "''hello''" "Some ''es''" None]
  by (simp add: cache_lookup_def start_def silent_def)

section \<open>Translating\<close>

text \<open>
  C1. Let the language set be available (\<open>supported_languages\<close> returns it, from the
  cache or from a fetch). For every text: if the target is not in the set, \<open>translate\<close>
  raises the \<open>YandexException\<close> whose message names the target and its value, whatever
  the source is; if the target is in the set and the source is given and not in the set,
  it raises the one naming the source and its value. In both cases the process is left
  as the look-up of the language set leaves it, and that look-up sends nothing to the
  \<open>translate\<close> endpoint.
\<close>

theorem translate_validation:
  "fst (supported_languages net self w) = Inr langs \<longrightarrow>
     (py_in target langs = Inr False \<longrightarrow>
        translate net self text (Some target) source w
          = (Inl (YandexException (JStr (''target language '' @ [CHR 0x27] @ target
                                          @ [CHR 0x27] @ '' not supported''))),
             snd (supported_languages net self w)))
     \<and> (py_in target langs = Inr True \<and> py_in src langs = Inr False \<longrightarrow>
        translate net self text (Some target) (Some src) w
          = (Inl (YandexException (JStr (''source language '' @ [CHR 0x27] @ src
                                          @ [CHR 0x27] @ '' not supported''))),
             snd (supported_languages net self w)))
     \<and> (\<forall>r \<in> set (issued w (snd (supported_languages net self w))).
          url r \<noteq> URL @ ''translate'')"
proof
  assume a: "fst (supported_languages net self w) = Inr langs"
  have "issued w (snd (supported_languages net self w)) = []
        \<or> issued w (snd (supported_languages net self w)) = [getLangs_request self]"
    using supported_languages_returns(2) [OF a] by (auto simp: issued_def)
  then have "\<forall>r \<in> set (issued w (snd (supported_languages net self w))).
          url r \<noteq> URL @ ''translate''"
    by (auto simp: getLangs_request_def)
  then show "(py_in target langs = Inr False \<longrightarrow>
        translate net self text (Some target) source w
          = (Inl (YandexException (JStr (''target language '' @ [CHR 0x27] @ target
                                          @ [CHR 0x27] @ '' not supported''))),
             snd (supported_languages net self w)))
     \<and> (py_in target langs = Inr True \<and> py_in src langs = Inr False \<longrightarrow>
        translate net self text (Some target) (Some src) w
          = (Inl (YandexException (JStr (''source language '' @ [CHR 0x27] @ src
                                          @ [CHR 0x27] @ '' not supported''))),
             snd (supported_languages net self w)))
     \<and> (\<forall>r \<in> set (issued w (snd (supported_languages net self w))).
          url r \<noteq> URL @ ''translate'')"
    by (simp add: translate_def direction_after_fetch [OF a] not_supported_def)
qed

theorem translate_validation_witness:
  "fst (supported_languages service client start) = Inr langs_value
   \<and> py_in ''zz'' langs_value = Inr False
   \<and> py_in ''en'' langs_value = Inr True
   \<and> translate service client ''x'' (Some ''zz'') None start
       = (Inl (YandexException (JStr (''target language '' @ [CHR 0x27] @ ''zz''
                                       @ [CHR 0x27] @ '' not supported''))),
          start\<lparr>sent := [getLangs_request client], cache := Some (0, langs_value)\<rparr>)
   \<and> translate service client ''x'' (Some ''en'') (Some ''zz'') start
       = (Inl (YandexException (JStr (''source language '' @ [CHR 0x27] @ ''zz''
                                       @ [CHR 0x27] @ '' not supported''))),
          start\<lparr>sent := [getLangs_request client], cache := Some (0, langs_value)\<rparr>)"
  using translate_validation [of service client start langs_value "''zz''" "''x''" None "''zz''"]
    translate_validation [of service client start langs_value "''en''" "''x''" None "''zz''"]
  by (simp add: service_fetch sample_codes)

text \<open>
  C2. Let the language set be available and hold the target. For every text,
  \<open>translate\<close> with a source that is in the set sends, after the look-up of the set, the
  \<open>translate\<close> request whose \<open>lang\<close> is source, hyphen, target; without a source it
  sends the one whose \<open>lang\<close> is the target. A call that leaves the target out is the
  call with the target \<open>en\<close>.
\<close>

theorem translate_direction:
  "(fst (supported_languages net self w) = Inr langs \<and> py_in target langs = Inr True \<longrightarrow>
      (py_in src langs = Inr True \<longrightarrow>
         sent (snd (translate net self text (Some target) (Some src) w))
           = sent (snd (supported_languages net self w))
             @ [translate_request self text (src @ ''-'' @ target)])
      \<and> sent (snd (translate net self text (Some target) None w))
           = sent (snd (supported_languages net self w)) @ [translate_request self text target])
   \<and> translate net self text None source w = translate net self text (Some ''en'') source w"
  by (auto simp: translate_def direction_after_fetch translate_request_def
        get_api_response_process)

theorem translate_direction_witness:
  "fst (supported_languages service client start) = Inr langs_value
   \<and> py_in ''es'' langs_value = Inr True
   \<and> py_in ''en'' langs_value = Inr True
   \<and> sent (snd (translate service client ''hello'' (Some ''es'') (Some ''en'') start))
       = [getLangs_request client,
          \<lparr>session = 0, url = URL @ ''translate'',
           params = [(''text'', ''hello''), (''format'', ''plain''), (''lang'', ''en-es''),
                     (''key'', ''secret'')]\<rparr>]
   \<and> sent (snd (translate service client ''hello'' (Some ''es'') None start))
       = [getLangs_request client,
          \<lparr>session = 0, url = URL @ ''translate'',
           params = [(''text'', ''hello''), (''format'', ''plain''), (''lang'', ''es''),
                     (''key'', ''secret'')]\<rparr>]"
  using translate_direction [of service client start langs_value "''es''" "''en''" "''hello''" None]
  by (simp add: service_fetch sample_codes translate_request_def client_fields)

section \<open>The cache of the supported languages\<close>

text \<open>
  C3. Let the cache hold nothing for an instance and let its first read of
  \<open>supported_languages\<close> succeed with a value. Then for every \<open>N \<ge> 1\<close>, \<open>N\<close> reads
  in a row on that instance all return that value, and together they send exactly one
  request, the \<open>getLangs\<close> request of the instance.
\<close>

theorem repeated_reads_fetch_once:
  "cache_lookup w self = None \<and> fst (supported_languages net self w) = Inr v \<and> 1 \<le> N \<longrightarrow>
     fst (run net (replicate N (self, Supported_languages)) w) = replicate N (Inr v)
     \<and> sent (snd (run net (replicate N (self, Supported_languages)) w))
         = sent w @ [getLangs_request self]"
proof
  assume a: "cache_lookup w self = None \<and> fst (supported_languages net self w) = Inr v \<and> 1 \<le> N"
  then obtain n where n: "N = Suc n"
    by (cases N) simp_all
  from a have m: "cache_lookup w self = None"
    and s: "fst (supported_languages net self w) = Inr v"
    by simp_all
  have first: "supported_languages net self w
      = (Inr v, w\<lparr>sent := sent w @ [getLangs_request self], cache := Some (ident self, v)\<rparr>)"
  proof (cases "fst (supported_languages_wrapped net self w)")
    case (Inl e)
    with m s show ?thesis
      by (simp add: supported_languages_miss)
  next
    case (Inr u)
    with m s show ?thesis
      by (simp add: supported_languages_miss)
  qed
  have "cache_lookup (w\<lparr>sent := sent w @ [getLangs_request self], cache := Some (ident self, v)\<rparr>) self
          = Some v"
    by (simp add: cache_lookup_def)
  from run_hits [OF this, of net n]
  show "fst (run net (replicate N (self, Supported_languages)) w) = replicate N (Inr v)
     \<and> sent (snd (run net (replicate N (self, Supported_languages)) w))
         = sent w @ [getLangs_request self]"
    by (simp add: n first)
qed

theorem repeated_reads_fetch_once_witness:
  "cache_lookup start client = None
   \<and> fst (supported_languages service client start) = Inr langs_value
   \<and> fst (run service (replicate 3 (client, Supported_languages)) start)
       = [Inr langs_value, Inr langs_value, Inr langs_value]
   \<and> sent (snd (run service (replicate 3 (client, Supported_languages)) start))
       = [getLangs_request client]"
proof -
  have m: "cache_lookup start client = None"
    by (simp add: cache_lookup_def start_def)
  have e: "sent start = []"
    by (simp add: start_def)
  have r: "replicate 3 (Inr langs_value :: int error + int json)
             = [Inr langs_value, Inr langs_value, Inr langs_value]"
    by (simp add: numeral_3_eq_3)
  show ?thesis
    using repeated_reads_fetch_once [of start client service langs_value 3]
    by (simp add: m e r service_fetch)
qed

text \<open>
  C5. The cache is one entry for the whole process, keyed by the instance, not one for
  each instance. Once the entry holds the language set of an instance:
  any sequence of calls on that instance (reading the property, translating, detecting)
  and of detections on other instances leaves the entry as it is, sends no \<open>getLangs\<close>
  request, and every read of the property in it returns the stored set;
  a read of the property or a translation on another instance whose fetch raises also
  leaves the entry as it is;
  a read of the property or a translation on another instance whose fetch returns puts
  that instance's set in the place of the entry, and the next read of the property on
  the first instance sends \<open>getLangs\<close> again.
\<close>

theorem shared_cache_entry:
  "(cache w = Some (ident self, v)
    \<and> (\<forall>(c, op) \<in> set script. ident c = ident self \<or> is_detect op)
    \<longrightarrow> cache (snd (run net script w)) = Some (ident self, v)
        \<and> filter (\<lambda>r. url r = URL @ ''getLangs'') (sent (snd (run net script w)))
            = filter (\<lambda>r. url r = URL @ ''getLangs'') (sent w)
        \<and> list_all2 (\<lambda>(c, op) r. op = Supported_languages \<longrightarrow> r = Inr v)
            script (fst (run net script w)))
   \<and> (cache w = Some (ident self, v) \<and> ident other \<noteq> ident self \<and> \<not> is_detect op
       \<longrightarrow> (fst (supported_languages_wrapped net other w) = Inl e
             \<longrightarrow> cache (snd (invoke net other op w)) = Some (ident self, v))
           \<and> (fst (supported_languages_wrapped net other w) = Inr u
             \<longrightarrow> cache (snd (invoke net other op w)) = Some (ident other, u)
                 \<and> sent (snd (supported_languages net self (snd (invoke net other op w))))
                     = sent (snd (invoke net other op w)) @ [getLangs_request self]))"
proof -
  have replaced: "(fst (supported_languages_wrapped net other w) = Inl e
             \<longrightarrow> cache (snd (invoke net other op w)) = Some (ident self, v))
           \<and> (fst (supported_languages_wrapped net other w) = Inr u
             \<longrightarrow> cache (snd (invoke net other op w)) = Some (ident other, u)
                 \<and> sent (snd (supported_languages net self (snd (invoke net other op w))))
                     = sent (snd (invoke net other op w)) @ [getLangs_request self])"
    if k: "cache w = Some (ident self, v)" and o: "ident other \<noteq> ident self"
      and d: "\<not> is_detect op"
  proof -
    from k o have m: "cache_lookup w other = None"
      by (auto simp: cache_lookup_def)
    note c = other_call_cache [OF m d, of net]
    have "sent (snd (supported_languages net self (snd (invoke net other op w))))
            = sent (snd (invoke net other op w)) @ [getLangs_request self]"
      if u: "fst (supported_languages_wrapped net other w) = Inr u"
    proof -
      from c u have "cache (snd (invoke net other op w)) = Some (ident other, u)"
        by simp
      with o have "cache_lookup (snd (invoke net other op w)) self = None"
        by (simp add: cache_lookup_def)
      then show ?thesis
        by (rule read_after_miss)
    qed
    with c k show ?thesis
      by simp
  qed
  with entry_kept_run [of w self v script net] show ?thesis
    by blast
qed

theorem shared_cache_entry_witness:
  "cache fetched = Some (ident client, langs_value)
   \<and> list_all (\<lambda>(c, op). ident c = ident client \<or> is_detect op) own_calls
   \<and> cache (snd (run service own_calls fetched)) = Some (ident client, langs_value)
   \<and> filter (\<lambda>r. url r = URL @ ''getLangs'') (sent (snd (run service own_calls fetched)))
       = [getLangs_request client]
   \<and> fst (run service own_calls fetched) ! 0 = Inr langs_value
   \<and> fst (run service own_calls fetched) ! 3 = Inr langs_value
   \<and> ident other_client = 1 \<and> ident client = 0
   \<and> fst (supported_languages_wrapped offline other_client fetched)
       = Inl (YandexException (JStr ''API unavailable''))
   \<and> cache (snd (invoke offline other_client Supported_languages fetched))
       = Some (ident client, langs_value)
   \<and> fst (supported_languages_wrapped service other_client fetched) = Inr langs_value
   \<and> cache (snd (invoke service other_client (Translate ''hello'' (Some ''es'') None) fetched))
       = Some (ident other_client, langs_value)
   \<and> sent (snd (supported_languages service client
            (snd (invoke service other_client (Translate ''hello'' (Some ''es'') None) fetched))))
       = sent (snd (invoke service other_client (Translate ''hello'' (Some ''es'') None) fetched))
         @ [getLangs_request client]"
proof -
  have c: "cache fetched = Some (ident client, langs_value)"
    by (simp add: fetched_def client_fields)
  have o: "\<forall>(c, op) \<in> set own_calls. ident c = ident client \<or> is_detect op"
    by (simp add: own_calls_def)
  have f: "filter (\<lambda>r. url r = URL @ ''getLangs'') (sent fetched) = [getLangs_request client]"
    by (simp add: fetched_def getLangs_request_def)
  have i: "ident other_client = 1" "ident client = 0"
    by (simp_all add: other_client_def client_def)
  then have n: "ident other_client \<noteq> ident client"
    by simp
  have wf: "fst (supported_languages_wrapped offline other_client fetched)
       = Inl (YandexException (JStr ''API unavailable''))"
    by (simp add: wrapped_value offline_def)
  have ws: "fst (supported_languages_wrapped service other_client fetched) = Inr langs_value"
    by (simp add: wrapped_value service_def getLangs_request_def langs_body_def
          langs_value_def)
  note k = shared_cache_entry [of fetched client langs_value own_calls service,
      THEN conjunct1, THEN mp, OF conjI, OF c o]
  from k have l: "list_all2 (\<lambda>(c, op) r. op = Supported_languages \<longrightarrow> r = Inr langs_value)
       own_calls (fst (run service own_calls fetched))"
    by blast
  have r0: "fst (run service own_calls fetched) ! 0 = Inr langs_value"
    using list_all2_nthD [OF l, of 0] by (simp add: own_calls_def)
  have r3: "fst (run service own_calls fetched) ! 3 = Inr langs_value"
    using list_all2_nthD [OF l, of 3] by (simp add: own_calls_def)
  have kept: "cache (snd (invoke offline other_client Supported_languages fetched))
       = Some (ident client, langs_value)"
    using shared_cache_entry [where w = fetched and self = client and v = langs_value
        and other = other_client and op = Supported_languages and net = offline
        and e = "YandexException (JStr ''API unavailable'')", THEN conjunct2] c n wf
    by simp
  have replaced: "cache (snd (invoke service other_client
                    (Translate ''hello'' (Some ''es'') None) fetched))
       = Some (ident other_client, langs_value)
     \<and> sent (snd (supported_languages service client
            (snd (invoke service other_client (Translate ''hello'' (Some ''es'') None) fetched))))
       = sent (snd (invoke service other_client (Translate ''hello'' (Some ''es'') None) fetched))
         @ [getLangs_request client]"
    using shared_cache_entry [where w = fetched and self = client and v = langs_value
        and other = other_client and op = "Translate ''hello'' (Some ''es'') None"
        and net = service and u = langs_value, THEN conjunct2] c n ws
    by simp
  from k c o f r0 r3 i wf ws kept replaced show ?thesis
    by (simp add: list_all_iff)
qed

text \<open>
  As the claim states it, for instances whose reads interleave, it fails: when a second
  instance reads the property between two reads of the first, the entry of the first is
  replaced, so the first instance fetches twice, and its two reads return what the
  service answered at two different times.
\<close>

theorem shared_cache_counterexample:
  "\<not> fetches client (snd (run growing in_turn start)) \<le> 1
   \<and> fst (run growing in_turn start) ! 0 \<noteq> fst (run growing in_turn start) ! 2"
proof -
  have i: "ident client = 0" "ident other_client = 1" "sent start = []" "cache start = None"
    by (simp_all add: client_def other_client_def start_def)
  have d: "getLangs_request other_client \<noteq> getLangs_request client"
    by (simp add: getLangs_request_def i)
  have "run growing in_turn start =
          ([Inr (JArr []), Inr (JArr [JStr ''en'']), Inr (JArr [JStr ''en'', JStr ''en''])],
           start\<lparr>sent := [getLangs_request client, getLangs_request other_client,
                           getLangs_request client],
                  cache := Some (0, JArr [JStr ''en'', JStr ''en''])\<rparr>)"
    by (simp add: in_turn_def supported_languages_def lru_cache_def cache_lookup_def i
          supported_languages_wrapped_def get_api_response_def growing_def
          getLangs_request_def)
  then show ?thesis
    using d by (simp add: fetches_def)
qed

section \<open>What a request's answer does to the call\<close>

text \<open>
  C4. The request helper returns the decoded body of a 200 answer. Every call of a
  public operation (reading the supported languages, translating, detecting) adds the
  requests it makes to the list of requests, and for each of them, answered knowing the
  requests before it: if the connection fails, the call raises the \<open>YandexException\<close>
  whose message is exactly \<open>API unavailable\<close>; if the status is not 200, the call raises
  the \<open>YandexException\<close> that carries the decoded body; if a request to the call's own
  endpoint is answered with 200, detecting and translating return the decoded body, and
  reading the supported languages returns what \<open>.get('langs')\<close> gives on it.
\<close>

theorem api_response_mapping:
  "(net (sent w) \<lparr>session = ident self, url = URL @ endpoint, params = payload\<rparr>
      = Response 200 (Some j)
    \<longrightarrow> fst (get_api_response net self endpoint payload w) = Inr j)
   \<and> (invoke net self op w = (r, w') \<longrightarrow>
        sent w' = sent w @ issued w w'
        \<and> (\<forall>pre req post. issued w w' = pre @ req # post \<longrightarrow>
             (net (sent w @ pre) req = ConnectionError \<longrightarrow>
                r = Inl (YandexException (JStr ''API unavailable'')))
             \<and> (\<forall>st b. net (sent w @ pre) req = Response st (Some b) \<and> st \<noteq> 200 \<longrightarrow>
                   r = Inl (YandexException b))
             \<and> (\<forall>b. net (sent w @ pre) req = Response 200 (Some b) \<longrightarrow>
                   (case op of
                      Supported_languages \<Rightarrow> r = py_get b ''langs''
                    | Translate _ _ _ \<Rightarrow> url req = URL @ ''translate'' \<longrightarrow> r = Inr b
                    | Detect_language _ \<Rightarrow> r = Inr b))))"
proof -
  have helper: "net (sent w) \<lparr>session = ident self, url = URL @ endpoint, params = payload\<rparr>
      = Response 200 (Some j)
    \<longrightarrow> fst (get_api_response net self endpoint payload w) = Inr j"
    by (simp add: get_api_response_value)
  have calls: "sent w' = sent w @ issued w w'
        \<and> (\<forall>pre req post. issued w w' = pre @ req # post \<longrightarrow>
             mapped op req (net (sent w @ pre) req) r)"
    if i: "invoke net self op w = (r, w')"
  proof (cases op)
    case Supported_languages
    with i have "supported_languages net self w = (r, w')"
      by simp
    from read_mapped [OF this] Supported_languages show ?thesis
      by blast
  next
    case (Translate t target_arg source)
    with i have "translate net self t target_arg source w = (r, w')"
      by simp
    from translate_mapped [OF this] Translate show ?thesis
      by blast
  next
    case (Detect_language t)
    with i have "detect_language net self t w = (r, w')"
      by simp
    from detect_mapped [OF this] Detect_language show ?thesis
      by blast
  qed
  from helper calls show ?thesis
    unfolding mapped_def by blast
qed

theorem api_response_mapping_witness:
  "rejecting (sent start) (detect_request client ''Bonjour'')
     = Response 401 (Some invalid_key_body)
   \<and> invoke rejecting client (Detect_language ''Bonjour'') start
       = (Inl (YandexException invalid_key_body),
          start\<lparr>sent := [detect_request client ''Bonjour'']\<rparr>)
   \<and> offline (sent start) (getLangs_request client) = ConnectionError
   \<and> invoke offline client Supported_languages start
       = (Inl (YandexException (JStr ''API unavailable'')),
          start\<lparr>sent := [getLangs_request client]\<rparr>)
   \<and> service (sent start @ [getLangs_request client]) (translate_request client ''hello'' ''es'')
       = Response 200 (Some answer_body)
   \<and> invoke service client (Translate ''hello'' (Some ''es'') None) start
       = (Inr answer_body,
          start\<lparr>sent := [getLangs_request client, translate_request client ''hello'' ''es''],
                 cache := Some (0, langs_value)\<rparr>)"
proof -
  have a1: "invoke rejecting client (Detect_language ''Bonjour'') start
       = (Inl (YandexException invalid_key_body),
          start\<lparr>sent := [detect_request client ''Bonjour'']\<rparr>)"
    by (simp add: detect_language_def get_api_response_def rejecting_def detect_request_def
          start_fields)
  have a2: "invoke offline client Supported_languages start
       = (Inl (YandexException (JStr ''API unavailable'')),
          start\<lparr>sent := [getLangs_request client]\<rparr>)"
    by (simp add: supported_languages_miss wrapped_value offline_def start_fields)
  have s: "fst (supported_languages service client start) = Inr langs_value"
    by (simp add: service_fetch)
  have a3: "invoke service client (Translate ''hello'' (Some ''es'') None) start
       = (Inr answer_body,
          start\<lparr>sent := [getLangs_request client, translate_request client ''hello'' ''es''],
                 cache := Some (0, langs_value)\<rparr>)"
    by (simp add: translate_def direction_after_fetch [OF s] service_fetch sample_codes
          get_api_response_def service_def translate_request_def)
  have n: "rejecting (sent start) (detect_request client ''Bonjour'')
             = Response 401 (Some invalid_key_body)"
    "offline (sent start) (getLangs_request client) = ConnectionError"
    "service (sent start @ [getLangs_request client]) (translate_request client ''hello'' ''es'')
       = Response 200 (Some answer_body)"
    by (simp_all add: rejecting_def offline_def service_def translate_request_def)
  show ?thesis
    using api_response_mapping [where net = rejecting and self = client and w = start
        and op = "Detect_language ''Bonjour''"
        and r = "Inl (YandexException invalid_key_body)"
        and w' = "start\<lparr>sent := [detect_request client ''Bonjour'']\<rparr>"]
      api_response_mapping [where net = offline and self = client and w = start
        and op = Supported_languages
        and r = "Inl (YandexException (JStr ''API unavailable''))"
        and w' = "start\<lparr>sent := [getLangs_request client]\<rparr>"]
      api_response_mapping [where net = service and self = client and w = start
        and op = "Translate ''hello'' (Some ''es'') None"
        and r = "Inr answer_body"
        and w' = "start\<lparr>sent := [getLangs_request client, translate_request client ''hello'' ''es''],
                 cache := Some (0, langs_value)\<rparr>"]
      a1 a2 a3 n
    by blast
qed

end
